theory Spec2Isabelle
  imports Main
begin

section \<open>JavaScript values\<close>

text \<open>
  The client is untyped: whatever the backend answers is parsed by \<^verbatim>\<open>response.json()\<close> and
  flows into the component state unchecked. The model therefore carries JSON values, with
  \<open>JUndefined\<close> added for the result of reading a property that is not there.

  \<^item> \<open>JNum n\<close> stands for the number that \<^verbatim>\<open>JSON.parse\<close> reads from the integer numeral
    \<open>n\<close>, that is, the double nearest to \<open>n\<close>; numerals with a fraction or an exponent
    are not represented.
  \<^item> A string is a list of characters with codes below 256; characters beyond U+00FF are
    not represented.
  \<^item> An object is the list of its entries in source order; a later entry with the same key
    overrides an earlier one, as \<^verbatim>\<open>JSON.parse\<close> does.
\<close>

datatype jsval =
    JUndefined
  | JNull
  | JBool bool
  | JNum int
  | JStr string
  | JArr "jsval list"
  | JObj "(string \<times> jsval) list"

text \<open>\<^verbatim>\<open>!!v\<close>\<close>

fun truthy :: "jsval \<Rightarrow> bool" where
  "truthy JUndefined = False"
| "truthy JNull = False"
| "truthy (JBool b) = b"
| "truthy (JNum n) = (n \<noteq> 0)"
| "truthy (JStr s) = (s \<noteq> [])"
| "truthy (JArr xs) = True"
| "truthy (JObj kvs) = True"

text \<open>\<^verbatim>\<open>a || b\<close>\<close>

definition js_or :: "jsval \<Rightarrow> jsval \<Rightarrow> jsval" where
  "js_or a b = (if truthy a then a else b)"

text \<open>\<^verbatim>\<open>a || b\<close> on two strings (\<^verbatim>\<open>err.message || 'fallback'\<close>)\<close>

definition str_or :: "string \<Rightarrow> string \<Rightarrow> string" where
  "str_or a b = (if a \<noteq> [] then a else b)"

fun nullish :: "jsval \<Rightarrow> bool" where
  "nullish JUndefined = True"
| "nullish JNull = True"
| "nullish v = False"

text \<open>
  \<^verbatim>\<open>v.k\<close> for a value \<open>v\<close> that is neither \<^verbatim>\<open>null\<close> nor \<^verbatim>\<open>undefined\<close> (there the
  access throws, and every caller below guards against it), and for the keys the program
  reads (\<^verbatim>\<open>success\<close>, \<^verbatim>\<open>document\<close>, \<^verbatim>\<open>html\<close>, \<^verbatim>\<open>language\<close>, \<^verbatim>\<open>error\<close>,
  \<^verbatim>\<open>modifiedHTML\<close>, \<^verbatim>\<open>explanation\<close>, \<^verbatim>\<open>id\<close>, \<^verbatim>\<open>originalName\<close>): none of them is
  defined on the prototype of a string, number, boolean, array or plain object, so only an
  object's own entries can answer.
\<close>

fun js_get :: "jsval \<Rightarrow> string \<Rightarrow> jsval" where
  "js_get (JObj kvs) k = (case map_of (rev kvs) k of Some v \<Rightarrow> v | None \<Rightarrow> JUndefined)"
| "js_get v k = JUndefined"

text \<open>\<^verbatim>\<open>v?.k\<close>\<close>

definition js_opt_get :: "jsval \<Rightarrow> string \<Rightarrow> jsval" where
  "js_opt_get v k = (if nullish v then JUndefined else js_get v k)"

subsection \<open>Strings\<close>

definition digit_char :: "nat \<Rightarrow> char" where
  "digit_char d = ''0123456789'' ! d"

text \<open>The decimal numeral of a natural number (\<open>digit_char\<close> is only applied below 10).\<close>

fun show_nat :: "nat \<Rightarrow> string" where
  "show_nat n = (if n < 10 then [digit_char n] else show_nat (n div 10) @ [digit_char (n mod 10)])"

declare show_nat.simps [simp del]

text \<open>The number of binary digits of a natural number.\<close>

fun bit_length :: "nat \<Rightarrow> nat" where
  "bit_length n = (if n = 0 then 0 else Suc (bit_length (n div 2)))"

declare bit_length.simps [simp del]

text \<open>
  The double nearest to a natural number, ties going to the even significand of 53 bits;
  \<open>None\<close> is \<^verbatim>\<open>Infinity\<close>. The value of such a double is a natural number again.
\<close>

definition nearest_double :: "nat \<Rightarrow> nat option" where
  "nearest_double n =
     (if bit_length n \<le> 53 then Some n
      else
        (let e = bit_length n - 53;
             q = n div 2 ^ e;
             r = n mod 2 ^ e;
             m = (if 2 ^ (e - 1) < r \<or> (r = 2 ^ (e - 1) \<and> odd q) then q + 1 else q)
         in if 2 ^ 1024 \<le> m * 2 ^ e then None else Some (m * 2 ^ e)))"

text \<open>
  For a double \<open>d\<close> of more than 53 bits: the natural number \<open>v\<close> is read back as \<open>d\<close>.
  The bounds are the midpoints to the neighbouring doubles (twice their values, to stay in
  the natural numbers); a midpoint itself goes to the double whose significand is even.
\<close>

definition rounds_to :: "nat \<Rightarrow> nat \<Rightarrow> bool" where
  "rounds_to d v =
     (let e = bit_length d - 53;
          m = d div 2 ^ e;
          lo2 = 2 * d - (if m = 2 ^ 52 then 2 ^ (e - 1) else 2 ^ e);
          hi2 = 2 * d + 2 ^ e
      in if even m then lo2 \<le> 2 * v \<and> 2 * v \<le> hi2 else lo2 < 2 * v \<and> 2 * v < hi2)"

text \<open>
  The number with the fewest significant digits that is read back as \<open>d\<close>: the multiple of
  the highest power of ten, from \<open>10 ^ p\<close> down, that is; of two such multiples the one
  nearer to \<open>d\<close>, and of two equally near the one with the even last digit.
\<close>

primrec shortest_numeral :: "nat \<Rightarrow> nat \<Rightarrow> nat" where
  "shortest_numeral d 0 = d"
| "shortest_numeral d (Suc p) =
     (let c1 = (d div 10 ^ Suc p) * 10 ^ Suc p;
          c2 = c1 + 10 ^ Suc p
      in if rounds_to d c1 \<and> rounds_to d c2
         then (if d - c1 < c2 - d then c1
               else if c2 - d < d - c1 then c2
               else if even (d div 10 ^ Suc p) then c1 else c2)
         else if rounds_to d c1 then c1
         else if rounds_to d c2 then c2
         else shortest_numeral d p)"

text \<open>
  Up to 21 digits are written out; a longer number is written with its significant digits,
  a point after the first, and the exponent.
\<close>

definition show_digits :: "nat \<Rightarrow> string" where
  "show_digits v =
     (let ds = show_nat v in
      if length ds \<le> 21 then ds
      else (case rev (dropWhile (\<lambda>c. c = CHR ''0'') (rev ds)) of
              [] \<Rightarrow> ds
            | c # cs \<Rightarrow>
                (if cs = [] then [c] else c # CHR ''.'' # cs)
                  @ ''e+'' @ show_nat (length ds - 1)))"

text \<open>
  \<^verbatim>\<open>Number::toString\<close> for the number read from the integer numeral \<open>i\<close>. An integer
  of at most 53 bits is a double and is its own shortest numeral.
\<close>

definition number_to_string :: "int \<Rightarrow> string" where
  "number_to_string i =
     (if i < 0 then ''-'' else []) @
     (case nearest_double (nat \<bar>i\<bar>) of
        None \<Rightarrow> ''Infinity''
      | Some d \<Rightarrow>
          show_digits (if bit_length d \<le> 53 then d
                       else shortest_numeral d (length (show_nat d))))"

text \<open>\<^verbatim>\<open>xs.join(',')\<close> on strings already rendered\<close>

fun join_comma :: "string list \<Rightarrow> string" where
  "join_comma [] = []"
| "join_comma [s] = s"
| "join_comma (s # t # ss) = s @ '','' @ join_comma (t # ss)"

text \<open>Collects the results of a list of conversions; \<open>None\<close> as soon as one of them throws.\<close>

fun sequence_opt :: "'a option list \<Rightarrow> 'a list option" where
  "sequence_opt [] = Some []"
| "sequence_opt (None # xs) = None"
| "sequence_opt (Some x # xs) = (case sequence_opt xs of None \<Rightarrow> None | Some ys \<Rightarrow> Some (x # ys))"

text \<open>
  The abstract operation \<^verbatim>\<open>ToString(v)\<close>, which \<^verbatim>\<open>new Error(v)\<close> applies to its argument.
  \<open>None\<close> is the \<^verbatim>\<open>TypeError\<close> thrown when an object cannot be converted to a primitive:
  a parsed object answers with \<^verbatim>\<open>Object.prototype.toString\<close> unless an entry of its own
  named \<^verbatim>\<open>toString\<close> hides that method behind a value that cannot be called. An array joins
  its elements with commas, \<^verbatim>\<open>null\<close> and \<^verbatim>\<open>undefined\<close> elements contributing nothing.
\<close>

fun to_string :: "jsval \<Rightarrow> string option" where
  "to_string JUndefined = Some ''undefined''"
| "to_string JNull = Some ''null''"
| "to_string (JBool b) = Some (if b then ''true'' else ''false'')"
| "to_string (JNum n) = Some (number_to_string n)"
| "to_string (JStr s) = Some s"
| "to_string (JArr xs) =
     map_option join_comma
       (sequence_opt (map (\<lambda>x. if nullish x then Some [] else to_string x) xs))"
| "to_string (JObj kvs) =
     (if ''toString'' \<in> fst ` set kvs then None else Some ''[object Object]'')"

text \<open>\<^verbatim>\<open>s.includes(t)\<close>\<close>

fun js_includes :: "string \<Rightarrow> string \<Rightarrow> bool" where
  "js_includes [] t = (t = [])"
| "js_includes (c # cs) t = (take (length t) (c # cs) = t \<or> js_includes cs t)"

text \<open>
  White space and line terminators of ECMAScript among the characters below 256:
  TAB, LF, VT, FF, CR, SPACE and NO-BREAK SPACE.
\<close>

definition is_whitespace :: "char \<Rightarrow> bool" where
  "is_whitespace c = (of_char c \<in> {9, 10, 11, 12, 13, 32, 160 :: nat})"

text \<open>\<^verbatim>\<open>s.trim()\<close>\<close>

definition js_trim :: "string \<Rightarrow> string" where
  "js_trim s = rev (dropWhile is_whitespace (rev (dropWhile is_whitespace s)))"

text \<open>\<^verbatim>\<open>s.split('.')[0]\<close>: the part of \<open>s\<close> before its first dot, all of \<open>s\<close> if it has none\<close>

definition split_dot_first :: "string \<Rightarrow> string" where
  "split_dot_first s = takeWhile (\<lambda>c. c \<noteq> CHR ''.'') s"

subsection \<open>Errors\<close>

text \<open>A thrown \<^verbatim>\<open>Error\<close> object, as far as the program reads it: \<^verbatim>\<open>name\<close> and \<^verbatim>\<open>message\<close>.\<close>

datatype js_error = JsError (error_name: string) (error_message: string)

text \<open>\<^verbatim>\<open>new Error(m)\<close> for a string \<open>m\<close>\<close>

definition Error :: "string \<Rightarrow> js_error" where
  "Error m = JsError ''Error'' m"

text \<open>
  The \<^verbatim>\<open>TypeError\<close> of a failed conversion to a primitive and of calling something that
  is not a function. Their messages are worded by the engine; these are V8's.
\<close>

definition conversion_TypeError :: js_error where
  "conversion_TypeError = JsError ''TypeError'' ''Cannot convert object to primitive value''"

definition split_TypeError :: js_error where
  "split_TypeError = JsError ''TypeError'' ''document?.originalName?.split is not a function''"

text \<open>\<^verbatim>\<open>new Error(v)\<close> for any value \<open>v\<close>: the new error, or the \<^verbatim>\<open>TypeError\<close> of the conversion\<close>

definition new_Error :: "jsval \<Rightarrow> js_error" where
  "new_Error v = (case to_string v of None \<Rightarrow> conversion_TypeError | Some m \<Rightarrow> Error m)"

section \<open>The world outside the component\<close>

text \<open>
  Everything the program cannot decide by itself is an input of the model: how a
  \<^verbatim>\<open>fetch\<close> ends, what the clock shows, and whether a step of the browser's download
  machinery throws. Everything the program does to the outside is recorded, in order, as
  a list of effects.
\<close>

datatype js_file = File (file_name: string) (file_size: nat)

datatype blob = Blob (blob_size: nat)

text \<open>
  A \<^verbatim>\<open>Response\<close>: \<open>json_body\<close> is how \<^verbatim>\<open>response.json()\<close> settles and \<open>blob_body\<close> how
  \<^verbatim>\<open>response.blob()\<close> settles (\<open>Inl\<close> is a rejection).
\<close>

record http_response =
  status :: nat
  statusText :: string
  json_body :: "js_error + jsval"
  blob_body :: "js_error + blob"

text \<open>\<^verbatim>\<open>response.ok\<close>: the status is in the range 200 to 299\<close>

definition ok :: "http_response \<Rightarrow> bool" where
  "ok r = (200 \<le> status r \<and> status r \<le> 299)"

text \<open>How \<^verbatim>\<open>await fetch(...)\<close> ends: the promise rejects, or a response arrives.\<close>

datatype fetch_outcome = Rejected js_error | Responded http_response

text \<open>
  What a request carries: the form with the file under \<^verbatim>\<open>document\<close>; the object with
  \<^verbatim>\<open>documentId\<close>, \<^verbatim>\<open>instruction\<close>, \<^verbatim>\<open>html\<close> and \<^verbatim>\<open>language\<close>; the object with
  \<^verbatim>\<open>html\<close>, \<^verbatim>\<open>format\<close> and \<^verbatim>\<open>filename\<close>.
\<close>

datatype request_body =
    MultipartDocument js_file
  | EditBody jsval string jsval jsval
  | ConvertBody jsval string string

text \<open>
  An effect: a request to a URL, a line on the error console, or one of the calls of
  \<^verbatim>\<open>downloadFile\<close> to the page.
\<close>

datatype effect =
    Fetch string request_body
  | ConsoleError string js_error
  | CreateObjectURL blob
  | CreateAnchor string
  | AppendChild
  | Click
  | RemoveChild
  | SetTimeoutRevoke nat

text \<open>The calls of \<^verbatim>\<open>downloadFile\<close> that can throw, and the one that does, if any.\<close>

datatype dom_step =
  AtCreateObjectURL | AtCreateElement | AtAppendChild | AtClick | AtRemoveChild | AtSetTimeout

type_synonym dom_outcome = "(dom_step \<times> js_error) option"

section \<open>API service\<close>

record api_service =
  baseURL :: string

text \<open>
  The constructor. Its argument is \<^verbatim>\<open>process.env?.REACT_APP_API_URL\<close>, \<open>None\<close> when
  \<^verbatim>\<open>process\<close> or the variable is not defined.
\<close>

definition ApiService :: "string option \<Rightarrow> api_service" where
  "ApiService env_url =
     \<lparr>baseURL = (case env_url of
                   Some u \<Rightarrow> if u \<noteq> [] then u else ''http://localhost:5004/api''
                 | None \<Rightarrow> ''http://localhost:5004/api'')\<rparr>"

text \<open>\<^verbatim>\<open>`HTTP ${response.status}: ${response.statusText}`\<close>\<close>

definition status_line :: "http_response \<Rightarrow> string" where
  "status_line r = ''HTTP '' @ show_nat (status r) @ '': '' @ statusText r"

text \<open>
  The block under \<^verbatim>\<open>if (!response.ok)\<close>, shared by the three remote operations: the error
  it throws. Reading \<^verbatim>\<open>errorData.error\<close> from \<^verbatim>\<open>null\<close> throws inside the inner
  \<^verbatim>\<open>try\<close> like a body that does not parse, and is answered with the status line.
\<close>

definition error_from_response :: "string \<Rightarrow> http_response \<Rightarrow> js_error" where
  "error_from_response errorMessage r =
     (case json_body r of
        Inl e \<Rightarrow> Error (status_line r)
      | Inr errorData \<Rightarrow>
          if nullish errorData then Error (status_line r)
          else new_Error (js_or (js_get errorData ''error'') (JStr errorMessage)))"

text \<open>The outer \<^verbatim>\<open>catch (error)\<close> of the three remote operations.\<close>

definition rethrow_connect :: "string \<Rightarrow> js_error \<Rightarrow> js_error" where
  "rethrow_connect msg e =
     (if error_name e = ''TypeError'' \<and> js_includes (error_message e) ''fetch''
      then Error msg else e)"

definition catch_connect :: "string \<Rightarrow> js_error + 'a \<Rightarrow> js_error + 'a" where
  "catch_connect msg res = (case res of Inl e \<Rightarrow> Inl (rethrow_connect msg e) | Inr v \<Rightarrow> Inr v)"

definition uploadDocument ::
  "api_service \<Rightarrow> js_file option \<Rightarrow> fetch_outcome \<Rightarrow> effect list \<times> (js_error + jsval)" where
  "uploadDocument api file net =
     (case file of
        None \<Rightarrow> ([], Inl (Error ''No file provided''))
      | Some f \<Rightarrow>
          ([Fetch (baseURL api @ ''/documents/upload'') (MultipartDocument f)],
           catch_connect ''Unable to connect to server. Please check if the backend is running.''
             (case net of
                Rejected e \<Rightarrow> Inl e
              | Responded response \<Rightarrow>
                  if \<not> ok response then Inl (error_from_response ''Upload failed'' response)
                  else json_body response)))"

text \<open>
  The parameters \<^verbatim>\<open>language = 'en'\<close> and \<^verbatim>\<open>documentId = null\<close> take their defaults when
  the argument is \<^verbatim>\<open>undefined\<close>. The operation ends with \<^verbatim>\<open>return response.json()\<close>,
  not awaited: a rejection of that promise settles the caller's promise directly and does
  not pass through the \<^verbatim>\<open>catch\<close> of this function.
\<close>

definition editDocument ::
  "api_service \<Rightarrow> string \<Rightarrow> jsval \<Rightarrow> jsval \<Rightarrow> jsval \<Rightarrow> fetch_outcome
     \<Rightarrow> effect list \<times> (js_error + jsval)" where
  "editDocument api instruction html language documentId net =
     (if instruction = [] \<or> \<not> truthy html
      then ([], Inl (Error ''Instruction and HTML content are required''))
      else
        ([Fetch (baseURL api @ ''/documents/edit'')
            (EditBody (if documentId = JUndefined then JNull else documentId) instruction html
               (if language = JUndefined then JStr ''en'' else language))],
         (case net of
            Rejected e \<Rightarrow>
              catch_connect
                ''Unable to connect to server for editing. Please check if the backend is running.''
                (Inl e)
          | Responded response \<Rightarrow>
              if \<not> ok response
              then catch_connect
                     ''Unable to connect to server for editing. Please check if the backend is running.''
                     (Inl (error_from_response ''Edit failed'' response))
              else json_body response)))"

definition convertDocument ::
  "api_service \<Rightarrow> jsval \<Rightarrow> string \<Rightarrow> string \<Rightarrow> fetch_outcome
     \<Rightarrow> effect list \<times> (js_error + blob)" where
  "convertDocument api html format filename net =
     (if \<not> truthy html \<or> format = []
      then ([], Inl (Error ''HTML content and format are required''))
      else
        ([Fetch (baseURL api @ ''/conversion/convert'') (ConvertBody html format filename)],
         catch_connect
           ''Unable to connect to server for conversion. Please check if the backend is running.''
           (case net of
              Rejected e \<Rightarrow> Inl e
            | Responded response \<Rightarrow>
                if \<not> ok response then Inl (error_from_response ''Conversion failed'' response)
                else (case blob_body response of
                        Inl e \<Rightarrow> Inl e
                      | Inr blob \<Rightarrow>
                          if blob_size blob = 0
                          then Inl (Error ''Received empty file from server'')
                          else Inr blob))))"

text \<open>
  Runs the calls of a \<^verbatim>\<open>try\<close> block in order. A call that throws leaves no effect and
  ends the block with its error; the calls before it have happened.
\<close>

fun run_steps :: "(dom_step \<times> effect) list \<Rightarrow> dom_outcome \<Rightarrow> effect list \<times> js_error option" where
  "run_steps [] fail = ([], None)"
| "run_steps ((k, e) # rest) fail =
     (if map_option fst fail = Some k then ([], map_option snd fail)
      else (case run_steps rest fail of (es, r) \<Rightarrow> (e # es, r)))"

text \<open>
  \<open>CreateAnchor name\<close> is \<^verbatim>\<open>document.createElement('a')\<close> together with the two
  assignments to \<^verbatim>\<open>link.href\<close> and \<^verbatim>\<open>link.download\<close>; \<open>SetTimeoutRevoke d\<close> is the
  \<^verbatim>\<open>setTimeout\<close> that will call \<^verbatim>\<open>revokeObjectURL\<close> after \<open>d\<close> milliseconds.
\<close>

definition downloadFile :: "blob \<Rightarrow> string \<Rightarrow> dom_outcome \<Rightarrow> effect list \<times> (js_error + unit)" where
  "downloadFile blob filename page =
     (case run_steps
             [(AtCreateObjectURL, CreateObjectURL blob),
              (AtCreateElement, CreateAnchor (str_or filename ''download'')),
              (AtAppendChild, AppendChild),
              (AtClick, Click),
              (AtRemoveChild, RemoveChild),
              (AtSetTimeout, SetTimeoutRevoke 100)] page of
        (es, None) \<Rightarrow> (es, Inr ())
      | (es, Some error) \<Rightarrow>
          (es @ [ConsoleError ''Download error:'' error], Inl (Error ''Failed to download file'')))"

section \<open>The component and its handlers\<close>

datatype step = Upload | Preview | Edit

datatype preview_mode = Desktop | Mobile

record edit_record =
  instruction :: string
  timestamp :: string
  explanation :: jsval

text \<open>
  The state variables of \<^verbatim>\<open>App\<close>. The fields that receive backend data are JavaScript
  values; \<^verbatim>\<open>error\<close> is \<^verbatim>\<open>null\<close> or a string.
\<close>

record workflow_state =
  currentStep :: step
  document :: jsval
  htmlContent :: jsval
  isProcessing :: bool
  editInstructions :: string
  editHistory :: "edit_record list"
  previewMode :: preview_mode
  error :: "string option"
  language :: jsval

text \<open>The arguments of the \<^verbatim>\<open>useState\<close> calls.\<close>

definition initial_state :: workflow_state where
  "initial_state =
     \<lparr>currentStep = Upload, document = JNull, htmlContent = JStr [], isProcessing = False,
      editInstructions = [], editHistory = [], previewMode = Desktop, error = None,
      language = JStr ''en''\<rparr>"

text \<open>
  An \<^verbatim>\<open>async\<close> handler runs in two parts. The first runs inside the click: it ends either
  with \<^verbatim>\<open>return\<close> (\<open>None\<close>) or at the \<^verbatim>\<open>await\<close>, having called the API service with
  the values it read from the state (\<open>Some\<close> of them). The second runs when the call has
  settled: the rest of the \<^verbatim>\<open>try\<close>, the \<^verbatim>\<open>catch\<close> and the \<^verbatim>\<open>finally\<close>, applied to the
  state as it is then. The handler without a suffix is the two parts run one after the other
  with nothing in between.
\<close>

subsection \<open>\<^verbatim>\<open>handleFileUpload\<close>\<close>

definition handleFileUpload_begin ::
  "js_file option \<Rightarrow> workflow_state \<Rightarrow> workflow_state \<times> js_file option" where
  "handleFileUpload_begin file s =
     (case file of
        None \<Rightarrow> (s, None)
      | Some f \<Rightarrow> (s\<lparr>isProcessing := True, error := None\<rparr>, Some f))"

definition handleFileUpload_settle ::
  "js_error + jsval \<Rightarrow> workflow_state \<Rightarrow> workflow_state \<times> effect list" where
  "handleFileUpload_settle result s =
     (case (case result of
              Inl err \<Rightarrow> Inl err
            | Inr response \<Rightarrow>
                if truthy response \<and> truthy (js_get response ''success'')
                   \<and> truthy (js_get response ''document'')
                then Inr (s\<lparr>document := js_get response ''document'',
                             htmlContent :=
                               js_or (js_get (js_get response ''document'') ''html'') (JStr []),
                             language :=
                               js_or (js_get (js_get response ''document'') ''language'')
                                 (JStr ''en''),
                             currentStep := Preview\<rparr>)
                else Inl (Error ''Invalid response from server'')) of
        Inr s' \<Rightarrow> (s'\<lparr>isProcessing := False\<rparr>, [])
      | Inl err \<Rightarrow>
          (s\<lparr>error := Some (str_or (error_message err) ''Upload failed. Please try again.''),
             isProcessing := False\<rparr>,
           [ConsoleError ''Upload error:'' err]))"

definition handleFileUpload ::
  "api_service \<Rightarrow> js_file option \<Rightarrow> fetch_outcome \<Rightarrow> workflow_state
     \<Rightarrow> workflow_state \<times> effect list" where
  "handleFileUpload api file net s =
     (case handleFileUpload_begin file s of
        (s1, None) \<Rightarrow> (s1, [])
      | (s1, Some f) \<Rightarrow>
          (case uploadDocument api (Some f) net of
             (fx, result) \<Rightarrow>
               (case handleFileUpload_settle result s1 of (s2, fx') \<Rightarrow> (s2, fx @ fx'))))"

subsection \<open>\<^verbatim>\<open>handleAIEdit\<close>\<close>

text \<open>What the handler passes to \<^verbatim>\<open>api.editDocument\<close>.\<close>

record edit_call =
  call_instruction :: string
  call_html :: jsval
  call_language :: jsval
  call_documentId :: jsval

definition handleAIEdit_begin :: "workflow_state \<Rightarrow> workflow_state \<times> edit_call option" where
  "handleAIEdit_begin s =
     (if js_trim (editInstructions s) = []
      then (s\<lparr>error := Some ''Please enter an instruction''\<rparr>, None)
      else if \<not> truthy (htmlContent s)
      then (s\<lparr>error := Some ''No document content to edit''\<rparr>, None)
      else (s\<lparr>isProcessing := True, error := None\<rparr>,
            Some \<lparr>call_instruction = editInstructions s, call_html = htmlContent s,
                  call_language = language s,
                  call_documentId = js_opt_get (document s) ''id''\<rparr>))"

text \<open>
  \<open>instr\<close> is the handler's own \<^verbatim>\<open>editInstructions\<close>, read when it was called, and
  \<open>now\<close> is \<^verbatim>\<open>new Date().toLocaleString()\<close>.
\<close>

definition handleAIEdit_settle ::
  "string \<Rightarrow> string \<Rightarrow> js_error + jsval \<Rightarrow> workflow_state \<Rightarrow> workflow_state \<times> effect list" where
  "handleAIEdit_settle instr now result s =
     (case (case result of
              Inl err \<Rightarrow> Inl err
            | Inr response \<Rightarrow>
                if truthy response \<and> truthy (js_get response ''success'')
                   \<and> truthy (js_get response ''modifiedHTML'')
                then Inr (s\<lparr>htmlContent := js_get response ''modifiedHTML'',
                             editHistory := editHistory s @
                               [\<lparr>instruction = instr, timestamp = now,
                                 explanation =
                                   js_or (js_get response ''explanation'')
                                     (JStr ''Changes applied successfully'')\<rparr>],
                             editInstructions := []\<rparr>)
                else Inl (new_Error
                            (js_or (js_opt_get response ''error'') (JStr ''Edit failed'')))) of
        Inr s' \<Rightarrow> (s'\<lparr>isProcessing := False\<rparr>, [])
      | Inl err \<Rightarrow>
          (s\<lparr>error := Some (str_or (error_message err)
                              ''Failed to process edit instruction. Please try again.''),
             isProcessing := False\<rparr>,
           [ConsoleError ''Edit error:'' err]))"

definition handleAIEdit ::
  "api_service \<Rightarrow> string \<Rightarrow> fetch_outcome \<Rightarrow> workflow_state \<Rightarrow> workflow_state \<times> effect list" where
  "handleAIEdit api now net s =
     (case handleAIEdit_begin s of
        (s1, None) \<Rightarrow> (s1, [])
      | (s1, Some c) \<Rightarrow>
          (case editDocument api (call_instruction c) (call_html c) (call_language c)
                  (call_documentId c) net of
             (fx, result) \<Rightarrow>
               (case handleAIEdit_settle (call_instruction c) now result s1 of
                  (s2, fx') \<Rightarrow> (s2, fx @ fx'))))"

subsection \<open>\<^verbatim>\<open>downloadAsFormat\<close>\<close>

text \<open>
  The handler is a closure of the component and has four call sites, one for each literal
  \<^verbatim>\<open>'html'\<close>, \<^verbatim>\<open>'pdf'\<close>, \<^verbatim>\<open>'docx'\<close> and \<^verbatim>\<open>'png'\<close>.
\<close>

datatype export_format = HTML | PDF | DOCX | PNG

fun format_name :: "export_format \<Rightarrow> string" where
  "format_name HTML = ''html''"
| "format_name PDF = ''pdf''"
| "format_name DOCX = ''docx''"
| "format_name PNG = ''png''"

text \<open>\<^verbatim>\<open>format.toUpperCase()\<close> on these four\<close>

fun format_upper :: "export_format \<Rightarrow> string" where
  "format_upper HTML = ''HTML''"
| "format_upper PDF = ''PDF''"
| "format_upper DOCX = ''DOCX''"
| "format_upper PNG = ''PNG''"

text \<open>
  \<^verbatim>\<open>`${document?.originalName?.split('.')[0] || 'document'}.${format}`\<close>. A name that is
  there and is not a string has no \<^verbatim>\<open>split\<close> method, and calling it throws.
\<close>

definition export_filename :: "jsval \<Rightarrow> export_format \<Rightarrow> js_error + string" where
  "export_filename doc format =
     (let originalName = js_opt_get doc ''originalName'' in
      if nullish originalName then Inr (''document'' @ ''.'' @ format_name format)
      else (case originalName of
              JStr n \<Rightarrow> Inr (str_or (split_dot_first n) ''document'' @ ''.'' @ format_name format)
            | _ \<Rightarrow> Inl split_TypeError))"

text \<open>What the handler has read from the state when it reaches its \<^verbatim>\<open>try\<close>.\<close>

record export_call =
  call_document :: jsval
  call_content :: jsval

definition downloadAsFormat_begin :: "workflow_state \<Rightarrow> workflow_state \<times> export_call option" where
  "downloadAsFormat_begin s =
     (if \<not> truthy (htmlContent s)
      then (s\<lparr>error := Some ''No document content to download''\<rparr>, None)
      else (s\<lparr>isProcessing := True, error := None\<rparr>,
            Some \<lparr>call_document = document s, call_content = htmlContent s\<rparr>))"

text \<open>The \<^verbatim>\<open>try\<close> block: its effects, and the error it throws if it does.\<close>

definition downloadAsFormat_try ::
  "api_service \<Rightarrow> export_call \<Rightarrow> export_format \<Rightarrow> fetch_outcome \<Rightarrow> dom_outcome
     \<Rightarrow> effect list \<times> (js_error + unit)" where
  "downloadAsFormat_try api c format net page =
     (case export_filename (call_document c) format of
        Inl err \<Rightarrow> ([], Inl err)
      | Inr filename \<Rightarrow>
          (case convertDocument api (call_content c) (format_name format) filename net of
             (fx, Inl err) \<Rightarrow> (fx, Inl err)
           | (fx, Inr blob) \<Rightarrow>
               if blob_size blob > 0
               then (case downloadFile blob filename page of (fx', r) \<Rightarrow> (fx @ fx', r))
               else (fx, Inl (Error ''Failed to generate download file''))))"

definition downloadAsFormat_settle ::
  "export_format \<Rightarrow> js_error + unit \<Rightarrow> workflow_state \<Rightarrow> workflow_state \<times> effect list" where
  "downloadAsFormat_settle format result s =
     (case result of
        Inr u \<Rightarrow> (s\<lparr>isProcessing := False\<rparr>, [])
      | Inl err \<Rightarrow>
          (s\<lparr>error := Some (str_or (error_message err)
                              (''Failed to download '' @ format_upper format
                                 @ '' file. Please try again.'')),
             isProcessing := False\<rparr>,
           [ConsoleError ''Download error:'' err]))"

definition downloadAsFormat ::
  "api_service \<Rightarrow> export_format \<Rightarrow> fetch_outcome \<Rightarrow> dom_outcome \<Rightarrow> workflow_state
     \<Rightarrow> workflow_state \<times> effect list" where
  "downloadAsFormat api format net page s =
     (case downloadAsFormat_begin s of
        (s1, None) \<Rightarrow> (s1, [])
      | (s1, Some c) \<Rightarrow>
          (case downloadAsFormat_try api c format net page of
             (fx, result) \<Rightarrow>
               (case downloadAsFormat_settle format result s1 of (s2, fx') \<Rightarrow> (s2, fx @ fx'))))"

subsection \<open>\<^verbatim>\<open>resetDocument\<close>\<close>

definition resetDocument :: "workflow_state \<Rightarrow> workflow_state" where
  "resetDocument s =
     s\<lparr>document := JNull, htmlContent := JStr [], editHistory := [], error := None,
       language := JStr ''en'', currentStep := Upload, editInstructions := []\<rparr>"

subsection \<open>Kinds of effects\<close>

text \<open>A request sent to the backend.\<close>

fun network_call :: "effect \<Rightarrow> bool" where
  "network_call (Fetch url body) = True"
| "network_call e = False"

text \<open>A call made by \<^verbatim>\<open>downloadFile\<close> to the browser.\<close>

fun local_save :: "effect \<Rightarrow> bool" where
  "local_save (Fetch url body) = False"
| "local_save (ConsoleError label err) = False"
| "local_save e = True"

section \<open>Facts about the JavaScript operations\<close>

lemma truthy_not_nullish: "truthy v \<Longrightarrow> \<not> nullish v"
  by (cases v) simp_all

text \<open>\<^verbatim>\<open>s.trim()\<close> is empty exactly when \<open>s\<close> consists of white space only.\<close>

lemma js_trim_empty_iff: "js_trim s = [] \<longleftrightarrow> (\<forall>c \<in> set s. is_whitespace c)"
proof
  assume "js_trim s = []"
  then have all: "\<forall>c \<in> set (dropWhile is_whitespace s). is_whitespace c"
    by (simp add: js_trim_def)
  show "\<forall>c \<in> set s. is_whitespace c"
  proof (cases "dropWhile is_whitespace s")
    case Nil
    then show ?thesis by simp
  next
    case (Cons x xs)
    then have "\<not> is_whitespace x"
      using hd_dropWhile [of is_whitespace s] by simp
    moreover have "is_whitespace x" using all Cons by simp
    ultimately show ?thesis by simp
  qed
next
  assume "\<forall>c \<in> set s. is_whitespace c"
  then show "js_trim s = []"
    by (auto simp: js_trim_def dest: set_dropWhileD)
qed

lemma js_trim_nonempty: "js_trim s \<noteq> [] \<Longrightarrow> s \<noteq> []"
  by (auto simp: js_trim_def)

section \<open>Upload\<close>

text \<open>
  C1, as the code has it. When the upload is answered with a 2xx status and a body that
  parses to a value with a truthy \<^verbatim>\<open>success\<close> and a truthy \<^verbatim>\<open>document\<close>, the handler
  ends in step Preview with that document stored (so it is neither \<^verbatim>\<open>null\<close> nor
  \<^verbatim>\<open>undefined\<close>), no error and the processing flag down. \<^verbatim>\<open>htmlContent\<close> is the
  document's \<^verbatim>\<open>html\<close> when that is truthy and the empty string otherwise; \<^verbatim>\<open>language\<close>
  is the document's \<^verbatim>\<open>language\<close> when that is truthy and \<^verbatim>\<open>'en'\<close> otherwise. The
  defaults come from \<^verbatim>\<open>||\<close>, so they replace every falsy value and not only an absent
  one: a document whose language is the empty string ends with language \<^verbatim>\<open>'en'\<close>.
\<close>

theorem handleFileUpload_success:
  assumes "ok r" and "json_body r = Inr response"
    and "truthy response" and "truthy (js_get response ''success'')"
    and "truthy (js_get response ''document'')"
  shows "fst (handleFileUpload api (Some f) (Responded r) s) =
           s\<lparr>currentStep := Preview,
             document := js_get response ''document'',
             htmlContent :=
               (if truthy (js_get (js_get response ''document'') ''html'')
                then js_get (js_get response ''document'') ''html'' else JStr []),
             language :=
               (if truthy (js_get (js_get response ''document'') ''language'')
                then js_get (js_get response ''document'') ''language'' else JStr ''en''),
             error := None, isProcessing := False\<rparr>
         \<and> \<not> nullish (document (fst (handleFileUpload api (Some f) (Responded r) s)))
         \<and> \<not> nullish (htmlContent (fst (handleFileUpload api (Some f) (Responded r) s)))"
  using assms
  by (simp add: handleFileUpload_def handleFileUpload_begin_def uploadDocument_def
      catch_connect_def handleFileUpload_settle_def js_or_def truthy_not_nullish)

text \<open>
  The scenario of the specification: a text file is uploaded and the backend answers
  \<^verbatim>\<open>{success: true, document: {id: "d1", originalName: "a.txt", type: "text", language: "en",
  html: "<p>hi</p>"}}\<close>.
\<close>

theorem handleFileUpload_success_witness:
  "ok \<lparr>status = 200, statusText = ''OK'',
       json_body = Inr (JObj [(''success'', JBool True),
         (''document'', JObj [(''id'', JStr ''d1''), (''originalName'', JStr ''a.txt''),
            (''type'', JStr ''text''), (''language'', JStr ''en''),
            (''html'', JStr ''<p>hi</p>'')])]),
       blob_body = Inr (Blob 0)\<rparr>
   \<and> fst (handleFileUpload (ApiService None) (Some (File ''a.txt'' 2048))
        (Responded \<lparr>status = 200, statusText = ''OK'',
           json_body = Inr (JObj [(''success'', JBool True),
             (''document'', JObj [(''id'', JStr ''d1''), (''originalName'', JStr ''a.txt''),
                (''type'', JStr ''text''), (''language'', JStr ''en''),
                (''html'', JStr ''<p>hi</p>'')])]),
           blob_body = Inr (Blob 0)\<rparr>) initial_state) =
       initial_state\<lparr>currentStep := Preview,
         document := JObj [(''id'', JStr ''d1''), (''originalName'', JStr ''a.txt''),
            (''type'', JStr ''text''), (''language'', JStr ''en''),
            (''html'', JStr ''<p>hi</p>'')],
         htmlContent := JStr ''<p>hi</p>''\<rparr>"
  using handleFileUpload_success
    [where r = "\<lparr>status = 200, statusText = ''OK'',
       json_body = Inr (JObj [(''success'', JBool True),
         (''document'', JObj [(''id'', JStr ''d1''), (''originalName'', JStr ''a.txt''),
            (''type'', JStr ''text''), (''language'', JStr ''en''),
            (''html'', JStr ''<p>hi</p>'')])]),
       blob_body = Inr (Blob 0)\<rparr>"
     and response = "JObj [(''success'', JBool True),
         (''document'', JObj [(''id'', JStr ''d1''), (''originalName'', JStr ''a.txt''),
            (''type'', JStr ''text''), (''language'', JStr ''en''),
            (''html'', JStr ''<p>hi</p>'')])]"
     and api = "ApiService None" and f = "File ''a.txt'' 2048" and s = initial_state]
  by (simp add: ok_def initial_state_def)

text \<open>
  C1 as it is written fails where the document carries a language that is there and is
  empty: the answer \<^verbatim>\<open>{success: true, document: {html: "<p>hi</p>", language: ""}}\<close>
  leaves the language at \<^verbatim>\<open>'en'\<close>, not at the document's own value.
\<close>

theorem handleFileUpload_language_counterexample:
  "js_get (JObj [(''html'', JStr ''<p>hi</p>''), (''language'', JStr [])]) ''language'' = JStr []
   \<and> language (fst (handleFileUpload (ApiService None) (Some (File ''a.txt'' 2048))
        (Responded \<lparr>status = 200, statusText = ''OK'',
           json_body = Inr (JObj [(''success'', JBool True),
             (''document'', JObj [(''html'', JStr ''<p>hi</p>''), (''language'', JStr [])])]),
           blob_body = Inr (Blob 0)\<rparr>) initial_state)) = JStr ''en''"
  by (simp add: handleFileUpload_def handleFileUpload_begin_def uploadDocument_def
      catch_connect_def handleFileUpload_settle_def js_or_def ok_def initial_state_def)

text \<open>
  C2, as the code has it. When the request is rejected or answered with a status outside
  200 to 299, the step and the document are what they were (Upload and absent, when the
  upload started there) and the error is a string that is not empty. After a rejection the
  error is the connectivity message exactly when the rejection is a \<^verbatim>\<open>TypeError\<close> whose
  message contains \<^verbatim>\<open>fetch\<close>; any other rejection shows its own message, or
  \<^verbatim>\<open>'Upload failed. Please try again.'\<close> if it has none.
\<close>

theorem handleFileUpload_failure:
  assumes "net = Rejected e \<or> (net = Responded r \<and> \<not> ok r)"
  shows "currentStep (fst (handleFileUpload api (Some f) net s)) = currentStep s
         \<and> document (fst (handleFileUpload api (Some f) net s)) = document s
         \<and> (\<exists>m. error (fst (handleFileUpload api (Some f) net s)) = Some m \<and> m \<noteq> [])
         \<and> (net = Rejected e \<longrightarrow>
              error (fst (handleFileUpload api (Some f) net s)) =
                Some (if error_name e = ''TypeError'' \<and> js_includes (error_message e) ''fetch''
                      then ''Unable to connect to server. Please check if the backend is running.''
                      else str_or (error_message e) ''Upload failed. Please try again.''))
         \<and> js_includes ''Unable to connect to server. Please check if the backend is running.''
              ''check if the backend is running''"
  using assms
  by (auto simp: handleFileUpload_def handleFileUpload_begin_def uploadDocument_def
      catch_connect_def rethrow_connect_def handleFileUpload_settle_def str_or_def Error_def)

text \<open>The server is down and the browser words the rejection \<^verbatim>\<open>Failed to fetch\<close>.\<close>

theorem handleFileUpload_failure_witness:
  "currentStep (fst (handleFileUpload (ApiService None) (Some (File ''a.txt'' 2048))
      (Rejected (JsError ''TypeError'' ''Failed to fetch'')) initial_state)) = Upload
   \<and> document (fst (handleFileUpload (ApiService None) (Some (File ''a.txt'' 2048))
      (Rejected (JsError ''TypeError'' ''Failed to fetch'')) initial_state)) = JNull
   \<and> error (fst (handleFileUpload (ApiService None) (Some (File ''a.txt'' 2048))
      (Rejected (JsError ''TypeError'' ''Failed to fetch'')) initial_state)) =
       Some ''Unable to connect to server. Please check if the backend is running.''"
  using handleFileUpload_failure
    [where net = "Rejected (JsError ''TypeError'' ''Failed to fetch'')"
       and e = "JsError ''TypeError'' ''Failed to fetch''"
       and api = "ApiService None" and f = "File ''a.txt'' 2048" and s = initial_state]
  by (simp add: initial_state_def)

text \<open>
  C2 as it is written fails for a rejection whose message does not contain \<^verbatim>\<open>fetch\<close>:
  a browser that words its network failure \<^verbatim>\<open>Load failed\<close> gets that text as the error,
  without the connectivity hint.
\<close>

theorem handleFileUpload_transport_counterexample:
  "error (fst (handleFileUpload (ApiService None) (Some (File ''a.txt'' 2048))
      (Rejected (JsError ''TypeError'' ''Load failed'')) initial_state)) = Some ''Load failed''
   \<and> \<not> js_includes ''Load failed'' ''check if the backend is running''"
  by (simp add: handleFileUpload_def handleFileUpload_begin_def uploadDocument_def
      catch_connect_def rethrow_connect_def handleFileUpload_settle_def str_or_def
      initial_state_def)

text \<open>
  C10. Called without a file, the handler returns at once: the state is the one it was
  called in, flag and error included, and nothing is sent or logged. The check
  \<^verbatim>\<open>'No file provided'\<close> of the API service, which would have ended in the handler's
  \<^verbatim>\<open>catch\<close> with a logged error and an error message, is not reached.
\<close>

theorem handleFileUpload_absent_file:
  "handleFileUpload_begin None s = (s, None)
   \<and> handleFileUpload api None net s = (s, [])
   \<and> uploadDocument api None net = ([], Inl (Error ''No file provided''))"
  by (simp add: handleFileUpload_def handleFileUpload_begin_def uploadDocument_def)

section \<open>Reset\<close>

text \<open>
  C3, as the code has it. After \<^verbatim>\<open>resetDocument\<close> the step is Upload, the document is
  absent, the content is the empty string, the history is empty, there is no error and the
  language is \<^verbatim>\<open>'en'\<close>, whatever the state was; the pending instruction is cleared as well.
  The function does not write the processing flag or the preview mode: the result is the
  initial state with these two fields as they were, and so the initial state itself only
  when the flag was down and the preview mode was desktop. Resetting twice is resetting once.
\<close>

theorem resetDocument_initial:
  "currentStep (resetDocument s) = Upload
   \<and> document (resetDocument s) = JNull
   \<and> htmlContent (resetDocument s) = JStr []
   \<and> editHistory (resetDocument s) = []
   \<and> error (resetDocument s) = None
   \<and> language (resetDocument s) = JStr ''en''
   \<and> resetDocument s =
       initial_state\<lparr>isProcessing := isProcessing s, previewMode := previewMode s\<rparr>
   \<and> resetDocument (resetDocument s) = resetDocument s"
  by (simp add: resetDocument_def initial_state_def)

text \<open>
  C3 as it is written fails while a request is pending. A document is uploaded, the user
  goes to the edit step, types an instruction and submits it; the edit is now waiting for
  the backend with the processing flag up. The New Document button is not disabled then,
  and \<^verbatim>\<open>resetDocument\<close> leaves the flag up: the state it yields is not the initial state.
\<close>

theorem resetDocument_pending_counterexample:
  "isProcessing
     (resetDocument (fst (handleAIEdit_begin
        ((fst (handleFileUpload (ApiService None) (Some (File ''a.txt'' 2048))
            (Responded \<lparr>status = 200, statusText = ''OK'',
               json_body = Inr (JObj [(''success'', JBool True),
                 (''document'', JObj [(''id'', JStr ''d1''), (''html'', JStr ''<h1>Hi</h1>'')])]),
               blob_body = Inr (Blob 0)\<rparr>) initial_state))
         \<lparr>currentStep := Edit, editInstructions := ''make title bold''\<rparr>))))
   \<and> resetDocument (fst (handleAIEdit_begin
        ((fst (handleFileUpload (ApiService None) (Some (File ''a.txt'' 2048))
            (Responded \<lparr>status = 200, statusText = ''OK'',
               json_body = Inr (JObj [(''success'', JBool True),
                 (''document'', JObj [(''id'', JStr ''d1''), (''html'', JStr ''<h1>Hi</h1>'')])]),
               blob_body = Inr (Blob 0)\<rparr>) initial_state))
         \<lparr>currentStep := Edit, editInstructions := ''make title bold''\<rparr>)))
       \<noteq> initial_state"
proof -
  have up: "fst (handleFileUpload (ApiService None) (Some (File ''a.txt'' 2048))
            (Responded \<lparr>status = 200, statusText = ''OK'',
               json_body = Inr (JObj [(''success'', JBool True),
                 (''document'', JObj [(''id'', JStr ''d1''), (''html'', JStr ''<h1>Hi</h1>'')])]),
               blob_body = Inr (Blob 0)\<rparr>) initial_state) =
        initial_state\<lparr>currentStep := Preview,
          document := JObj [(''id'', JStr ''d1''), (''html'', JStr ''<h1>Hi</h1>'')],
          htmlContent := JStr ''<h1>Hi</h1>''\<rparr>"
    by (simp add: handleFileUpload_def handleFileUpload_begin_def uploadDocument_def
        catch_connect_def handleFileUpload_settle_def js_or_def ok_def initial_state_def)
  have flag: "isProcessing
     (resetDocument (fst (handleAIEdit_begin
        (initial_state\<lparr>currentStep := Preview,
           document := JObj [(''id'', JStr ''d1''), (''html'', JStr ''<h1>Hi</h1>'')],
           htmlContent := JStr ''<h1>Hi</h1>''\<rparr>
         \<lparr>currentStep := Edit, editInstructions := ''make title bold''\<rparr>))))"
    by (simp add: resetDocument_def handleAIEdit_begin_def js_trim_def is_whitespace_def
        initial_state_def)
  have "\<not> isProcessing initial_state"
    by (simp add: initial_state_def)
  with flag show ?thesis
    unfolding up by (intro conjI) auto
qed

section \<open>Edit\<close>

text \<open>
  C4, as the code has it. When the instruction is not blank, there is content, and the
  edit is answered with a 2xx status and a body that parses to a value with a truthy
  \<^verbatim>\<open>success\<close> and a truthy \<^verbatim>\<open>modifiedHTML\<close>, the history grows by exactly one record,
  appended at the end, whose instruction is the submitted text as typed and whose
  explanation is the backend's when that is truthy and
  \<^verbatim>\<open>'Changes applied successfully'\<close> otherwise (so also for an explanation that is there
  and empty); the content is the returned markup, the instruction input is empty, and
  nothing else changes but the error, cleared, and the processing flag, down.
\<close>

theorem handleAIEdit_success:
  assumes "js_trim (editInstructions s) \<noteq> []" and "truthy (htmlContent s)"
    and "ok r" and "json_body r = Inr response"
    and "truthy response" and "truthy (js_get response ''success'')"
    and "truthy (js_get response ''modifiedHTML'')"
  shows "length (editHistory (fst (handleAIEdit api now (Responded r) s)))
           = length (editHistory s) + 1
         \<and> fst (handleAIEdit api now (Responded r) s) =
             s\<lparr>htmlContent := js_get response ''modifiedHTML'',
               editHistory := editHistory s @
                 [\<lparr>instruction = editInstructions s, timestamp = now,
                   explanation =
                     (if truthy (js_get response ''explanation'')
                      then js_get response ''explanation''
                      else JStr ''Changes applied successfully'')\<rparr>],
               editInstructions := [], error := None, isProcessing := False\<rparr>"
  using assms js_trim_nonempty [of "editInstructions s"]
  by (simp add: handleAIEdit_def handleAIEdit_begin_def editDocument_def
      handleAIEdit_settle_def js_or_def)

text \<open>
  The scenario of the specification: \<^verbatim>\<open>make title bold\<close> on \<^verbatim>\<open><h1>Hi</h1>\<close>, answered
  with \<^verbatim>\<open>{success: true, modifiedHTML: "<h1><b>Hi</b></h1>", explanation: "Bolded title"}\<close>.
\<close>

theorem handleAIEdit_success_witness:
  "js_trim ''make title bold'' \<noteq> []
   \<and> fst (handleAIEdit (ApiService None) ''1/1/2025, 10:00:00 AM''
        (Responded \<lparr>status = 200, statusText = ''OK'',
           json_body = Inr (JObj [(''success'', JBool True),
             (''modifiedHTML'', JStr ''<h1><b>Hi</b></h1>''),
             (''explanation'', JStr ''Bolded title'')]),
           blob_body = Inr (Blob 0)\<rparr>)
        (initial_state\<lparr>currentStep := Edit, htmlContent := JStr ''<h1>Hi</h1>'',
           editInstructions := ''make title bold''\<rparr>)) =
       initial_state\<lparr>currentStep := Edit, htmlContent := JStr ''<h1><b>Hi</b></h1>'',
         editHistory := [\<lparr>instruction = ''make title bold'',
           timestamp = ''1/1/2025, 10:00:00 AM'', explanation = JStr ''Bolded title''\<rparr>]\<rparr>"
proof -
  have h: "js_trim ''make title bold'' \<noteq> []"
    by (simp add: js_trim_def is_whitespace_def)
  show ?thesis
    using h handleAIEdit_success
      [where s = "initial_state\<lparr>currentStep := Edit, htmlContent := JStr ''<h1>Hi</h1>'',
           editInstructions := ''make title bold''\<rparr>"
       and r = "\<lparr>status = 200, statusText = ''OK'',
           json_body = Inr (JObj [(''success'', JBool True),
             (''modifiedHTML'', JStr ''<h1><b>Hi</b></h1>''),
             (''explanation'', JStr ''Bolded title'')]),
           blob_body = Inr (Blob 0)\<rparr>"
       and response = "JObj [(''success'', JBool True),
             (''modifiedHTML'', JStr ''<h1><b>Hi</b></h1>''),
             (''explanation'', JStr ''Bolded title'')]"
       and api = "ApiService None" and now = "''1/1/2025, 10:00:00 AM''"]
    by (simp add: ok_def initial_state_def)
qed

text \<open>
  C4 as it is written fails where the backend supplies an explanation that is empty: the
  record shows the literal, not the explanation supplied.
\<close>

theorem handleAIEdit_explanation_counterexample:
  "js_get (JObj [(''success'', JBool True), (''modifiedHTML'', JStr ''<h1><b>Hi</b></h1>''),
       (''explanation'', JStr [])]) ''explanation'' = JStr []
   \<and> map explanation (editHistory (fst (handleAIEdit (ApiService None) ''1/1/2025, 10:00:00 AM''
        (Responded \<lparr>status = 200, statusText = ''OK'',
           json_body = Inr (JObj [(''success'', JBool True),
             (''modifiedHTML'', JStr ''<h1><b>Hi</b></h1>''),
             (''explanation'', JStr [])]),
           blob_body = Inr (Blob 0)\<rparr>)
        (initial_state\<lparr>currentStep := Edit, htmlContent := JStr ''<h1>Hi</h1>'',
           editInstructions := ''make title bold''\<rparr>)))) =
       [JStr ''Changes applied successfully'']"
  by (simp add: handleAIEdit_def handleAIEdit_begin_def editDocument_def
      handleAIEdit_settle_def js_or_def ok_def initial_state_def js_trim_def is_whitespace_def
      js_opt_get_def)

section \<open>Facts about the handlers\<close>

text \<open>The state a handler ends in, in terms of its two parts.\<close>

lemma handleFileUpload_settle_flag:
  "\<not> isProcessing (fst (handleFileUpload_settle result s))"
  by (simp add: handleFileUpload_settle_def split: sum.split)

lemma handleAIEdit_settle_flag:
  "\<not> isProcessing (fst (handleAIEdit_settle instr now result s))"
  by (simp add: handleAIEdit_settle_def split: sum.split)

lemma downloadAsFormat_settle_flag:
  "\<not> isProcessing (fst (downloadAsFormat_settle format result s))"
  by (simp add: downloadAsFormat_settle_def split: sum.split)

lemma fst_handleFileUpload:
  "fst (handleFileUpload api file net s) =
     (case snd (handleFileUpload_begin file s) of
        None \<Rightarrow> fst (handleFileUpload_begin file s)
      | Some f \<Rightarrow>
          fst (handleFileUpload_settle (snd (uploadDocument api (Some f) net))
                 (fst (handleFileUpload_begin file s))))"
  by (simp add: handleFileUpload_def split: prod.split option.split)

lemma fst_handleAIEdit:
  "fst (handleAIEdit api now net s) =
     (case snd (handleAIEdit_begin s) of
        None \<Rightarrow> fst (handleAIEdit_begin s)
      | Some c \<Rightarrow>
          fst (handleAIEdit_settle (call_instruction c) now
                 (snd (editDocument api (call_instruction c) (call_html c) (call_language c)
                         (call_documentId c) net))
                 (fst (handleAIEdit_begin s))))"
  by (simp add: handleAIEdit_def split: prod.split option.split)

lemma fst_downloadAsFormat:
  "fst (downloadAsFormat api format net page s) =
     (case snd (downloadAsFormat_begin s) of
        None \<Rightarrow> fst (downloadAsFormat_begin s)
      | Some c \<Rightarrow>
          fst (downloadAsFormat_settle format
                 (snd (downloadAsFormat_try api c format net page))
                 (fst (downloadAsFormat_begin s))))"
  by (simp add: downloadAsFormat_def split: prod.split option.split)

lemma convertDocument_fails_on_empty:
  assumes "ok r" and "blob_body r = Inr b" and "blob_size b = 0"
  shows "convertDocument api html format filename (Responded r) =
           (if \<not> truthy html \<or> format = []
            then ([], Inl (Error ''HTML content and format are required''))
            else ([Fetch (baseURL api @ ''/conversion/convert'') (ConvertBody html format filename)],
                  Inl (Error ''Received empty file from server'')))"
  using assms
  by (simp add: convertDocument_def catch_connect_def rethrow_connect_def Error_def)

lemma format_name_nonempty: "format_name fmt \<noteq> []"
  by (cases fmt) simp_all

lemma downloadAsFormat_settle_frame:
  "fst (downloadAsFormat_settle format result s) =
     s\<lparr>error := error (fst (downloadAsFormat_settle format result s)), isProcessing := False\<rparr>"
  by (simp add: downloadAsFormat_settle_def split: sum.split)

lemma downloadAsFormat_frame:
  "fst (downloadAsFormat api format net page s) =
     s\<lparr>error := error (fst (downloadAsFormat api format net page s)),
       isProcessing := isProcessing (fst (downloadAsFormat api format net page s))\<rparr>"
proof (cases "truthy (htmlContent s)")
  case False
  then show ?thesis
    by (simp add: fst_downloadAsFormat downloadAsFormat_begin_def)
next
  case True
  then show ?thesis
    using downloadAsFormat_settle_frame
      [of format "snd (downloadAsFormat_try api
          \<lparr>call_document = document s, call_content = htmlContent s\<rparr> format net page)"
          "s\<lparr>isProcessing := True, error := None\<rparr>"]
    by (simp add: fst_downloadAsFormat downloadAsFormat_begin_def downloadAsFormat_settle_flag)
qed

lemma handleAIEdit_settle_error:
  assumes "error (fst (handleAIEdit_settle instr now result s)) \<noteq> error s"
  shows "\<exists>m. fst (handleAIEdit_settle instr now result s) = s\<lparr>error := m, isProcessing := False\<rparr>"
proof (cases result)
  case (Inl err)
  then show ?thesis by (simp add: handleAIEdit_settle_def) (rule exI, rule refl)
next
  case (Inr response)
  show ?thesis
  proof (cases "truthy response \<and> truthy (js_get response ''success'')
                \<and> truthy (js_get response ''modifiedHTML'')")
    case True
    with Inr assms show ?thesis by (simp add: handleAIEdit_settle_def)
  next
    case False
    then have "handleAIEdit_settle instr now (Inr response) s =
        (s\<lparr>error := Some (str_or (error_message (new_Error
             (js_or (js_opt_get response ''error'') (JStr ''Edit failed''))))
             ''Failed to process edit instruction. Please try again.''),
           isProcessing := False\<rparr>,
         [ConsoleError ''Edit error:'' (new_Error
             (js_or (js_opt_get response ''error'') (JStr ''Edit failed'')))])"
      by (auto simp: handleAIEdit_settle_def)
    with Inr show ?thesis by simp (rule exI, rule refl)
  qed
qed

lemma handleAIEdit_frame:
  assumes "error (fst (handleAIEdit api now net s)) \<noteq> None"
  shows "fst (handleAIEdit api now net s) =
     s\<lparr>error := error (fst (handleAIEdit api now net s)),
       isProcessing := isProcessing (fst (handleAIEdit api now net s))\<rparr>"
proof (cases "snd (handleAIEdit_begin s)")
  case None
  then show ?thesis
    by (auto simp: fst_handleAIEdit handleAIEdit_begin_def split: if_splits)
next
  case (Some c)
  then have b: "fst (handleAIEdit_begin s) = s\<lparr>isProcessing := True, error := None\<rparr>"
    by (auto simp: handleAIEdit_begin_def split: if_splits)
  let ?res = "snd (editDocument api (call_instruction c) (call_html c) (call_language c)
                         (call_documentId c) net)"
  have eq: "fst (handleAIEdit api now net s) =
      fst (handleAIEdit_settle (call_instruction c) now ?res
             (s\<lparr>isProcessing := True, error := None\<rparr>))"
    using Some b by (simp add: fst_handleAIEdit)
  with assms have "error (fst (handleAIEdit_settle (call_instruction c) now ?res
      (s\<lparr>isProcessing := True, error := None\<rparr>)))
        \<noteq> error (s\<lparr>isProcessing := True, error := None\<rparr>)"
    by simp
  from handleAIEdit_settle_error [OF this] obtain m where
    "fst (handleAIEdit api now net s) =
       s\<lparr>isProcessing := True, error := None\<rparr>\<lparr>error := m, isProcessing := False\<rparr>"
    unfolding eq by blast
  then show ?thesis by simp
qed

lemma handleAIEdit_failure_reported:
  assumes "\<not> (js_trim (editInstructions s) \<noteq> [] \<and> truthy (htmlContent s)
              \<and> (\<exists>r response. net = Responded r \<and> ok r \<and> json_body r = Inr response
                    \<and> truthy response \<and> truthy (js_get response ''success'')
                    \<and> truthy (js_get response ''modifiedHTML'')))"
  shows "error (fst (handleAIEdit api now net s)) \<noteq> None"
  using assms
  by (cases net)
     (auto simp: fst_handleAIEdit handleAIEdit_begin_def handleAIEdit_settle_def
        editDocument_def catch_connect_def split: sum.splits if_splits)

section \<open>Validation\<close>

text \<open>
  C5. An edit submitted with an instruction that is empty or all white space, or with
  content that is empty, ends inside the click: the only change to the state is the error,
  set to \<^verbatim>\<open>'Please enter an instruction'\<close> in the first case and to
  \<^verbatim>\<open>'No document content to edit'\<close> in the second, and the effect list is empty, so
  nothing is sent. An export requested with empty content likewise only sets the error, to
  \<^verbatim>\<open>'No document content to download'\<close>, and sends nothing. Content and history are
  fields of the state and stay as they were.
\<close>

theorem validation_without_io:
  "((\<forall>c \<in> set (editInstructions s). is_whitespace c) \<or> \<not> truthy (htmlContent s) \<longrightarrow>
      handleAIEdit_begin s =
        (s\<lparr>error := Some (if \<forall>c \<in> set (editInstructions s). is_whitespace c
                           then ''Please enter an instruction''
                           else ''No document content to edit'')\<rparr>, None)
      \<and> handleAIEdit api now net s = (fst (handleAIEdit_begin s), []))
   \<and> (\<not> truthy (htmlContent s) \<longrightarrow>
      downloadAsFormat_begin s = (s\<lparr>error := Some ''No document content to download''\<rparr>, None)
      \<and> downloadAsFormat api format net page s = (fst (downloadAsFormat_begin s), []))"
  by (simp add: handleAIEdit_def handleAIEdit_begin_def downloadAsFormat_def
      downloadAsFormat_begin_def js_trim_empty_iff)

text \<open>An instruction of two spaces, and an export before anything was uploaded.\<close>

theorem validation_without_io_witness:
  "js_trim ''  '' = []
   \<and> handleAIEdit (ApiService None) ''1/1/2025, 10:00:00 AM''
        (Rejected (JsError ''TypeError'' ''Failed to fetch''))
        (initial_state\<lparr>editInstructions := ''  ''\<rparr>) =
       (initial_state\<lparr>editInstructions := ''  '', error := Some ''Please enter an instruction''\<rparr>, [])
   \<and> \<not> truthy (htmlContent (initial_state\<lparr>editInstructions := ''  ''\<rparr>))
   \<and> downloadAsFormat (ApiService None) PDF
        (Rejected (JsError ''TypeError'' ''Failed to fetch'')) None
        (initial_state\<lparr>editInstructions := ''  ''\<rparr>) =
       (initial_state\<lparr>editInstructions := ''  '',
          error := Some ''No document content to download''\<rparr>, [])"
proof -
  have h: "\<forall>c \<in> set ''  ''. is_whitespace c"
    by (simp add: is_whitespace_def)
  have h': "\<not> truthy (htmlContent (initial_state\<lparr>editInstructions := ''  ''\<rparr>))"
    by (simp add: initial_state_def)
  show ?thesis
    using h h' js_trim_empty_iff [of "''  ''"] validation_without_io
      [where s = "initial_state\<lparr>editInstructions := ''  ''\<rparr>" and api = "ApiService None"
         and now = "''1/1/2025, 10:00:00 AM''"
         and net = "Rejected (JsError ''TypeError'' ''Failed to fetch'')"
         and format = PDF and page = None]
    by simp
qed

section \<open>Export\<close>

text \<open>
  C6. When the conversion is answered with a 2xx status and a payload of size zero,
  \<^verbatim>\<open>convertDocument\<close> throws, with \<^verbatim>\<open>'Received empty file from server'\<close> whenever its
  own arguments were acceptable; the export ends with the error set, to that message
  whenever the request was sent at all, and no call of \<^verbatim>\<open>downloadFile\<close> is among its
  effects.
\<close>

theorem empty_payload_is_failure:
  assumes "ok r" and "blob_body r = Inr b" and "blob_size b = 0"
  shows "(\<exists>e. snd (convertDocument api html format filename (Responded r)) = Inl e)
         \<and> (truthy html \<and> format \<noteq> [] \<longrightarrow>
              snd (convertDocument api html format filename (Responded r)) =
                Inl (Error ''Received empty file from server''))
         \<and> error (fst (downloadAsFormat api fmt (Responded r) page s)) \<noteq> None
         \<and> (list_ex network_call (snd (downloadAsFormat api fmt (Responded r) page s)) \<longrightarrow>
              error (fst (downloadAsFormat api fmt (Responded r) page s)) =
                Some ''Received empty file from server'')
         \<and> filter local_save (snd (downloadAsFormat api fmt (Responded r) page s)) = []"
  using convertDocument_fails_on_empty [OF assms]
  by (simp add: downloadAsFormat_def downloadAsFormat_begin_def downloadAsFormat_try_def
      downloadAsFormat_settle_def format_name_nonempty str_or_def Error_def
      split: sum.split)

text \<open>The scenario of the specification: status 200 and a payload of zero bytes.\<close>

theorem empty_payload_is_failure_witness:
  "ok \<lparr>status = 200, statusText = ''OK'', json_body = Inl (JsError ''SyntaxError'' ''Unexpected end of JSON input''),
       blob_body = Inr (Blob 0)\<rparr>
   \<and> error (fst (downloadAsFormat (ApiService None) PDF
        (Responded \<lparr>status = 200, statusText = ''OK'',
           json_body = Inl (JsError ''SyntaxError'' ''Unexpected end of JSON input''),
           blob_body = Inr (Blob 0)\<rparr>) None
        (initial_state\<lparr>currentStep := Edit, htmlContent := JStr ''<h1>Hi</h1>''\<rparr>))) =
       Some ''Received empty file from server''
   \<and> snd (downloadAsFormat (ApiService None) PDF
        (Responded \<lparr>status = 200, statusText = ''OK'',
           json_body = Inl (JsError ''SyntaxError'' ''Unexpected end of JSON input''),
           blob_body = Inr (Blob 0)\<rparr>) None
        (initial_state\<lparr>currentStep := Edit, htmlContent := JStr ''<h1>Hi</h1>''\<rparr>)) =
       [Fetch ''http://localhost:5004/api/conversion/convert''
          (ConvertBody (JStr ''<h1>Hi</h1>'') ''pdf'' ''document.pdf''),
        ConsoleError ''Download error:'' (Error ''Received empty file from server'')]"
proof -
  have fx: "snd (downloadAsFormat (ApiService None) PDF
        (Responded \<lparr>status = 200, statusText = ''OK'',
           json_body = Inl (JsError ''SyntaxError'' ''Unexpected end of JSON input''),
           blob_body = Inr (Blob 0)\<rparr>) None
        (initial_state\<lparr>currentStep := Edit, htmlContent := JStr ''<h1>Hi</h1>''\<rparr>)) =
       [Fetch ''http://localhost:5004/api/conversion/convert''
          (ConvertBody (JStr ''<h1>Hi</h1>'') ''pdf'' ''document.pdf''),
        ConsoleError ''Download error:'' (Error ''Received empty file from server'')]"
    by (simp add: downloadAsFormat_def downloadAsFormat_begin_def downloadAsFormat_try_def
        downloadAsFormat_settle_def export_filename_def convertDocument_def catch_connect_def
        rethrow_connect_def Error_def ok_def initial_state_def js_opt_get_def ApiService_def)
  have h: "ok \<lparr>status = 200, statusText = ''OK'',
       json_body = Inl (JsError ''SyntaxError'' ''Unexpected end of JSON input''),
       blob_body = Inr (Blob 0)\<rparr>"
    by (simp add: ok_def)
  show ?thesis
    using h fx empty_payload_is_failure
      [where r = "\<lparr>status = 200, statusText = ''OK'',
           json_body = Inl (JsError ''SyntaxError'' ''Unexpected end of JSON input''),
           blob_body = Inr (Blob 0)\<rparr>"
         and b = "Blob 0" and api = "ApiService None" and fmt = PDF and page = None
         and s = "initial_state\<lparr>currentStep := Edit, htmlContent := JStr ''<h1>Hi</h1>''\<rparr>"]
    by simp
qed

text \<open>
  C8 does not hold of \<^verbatim>\<open>downloadFile\<close>. The \<^verbatim>\<open>setTimeout\<close> that revokes the object URL
  is the last statement of the \<^verbatim>\<open>try\<close> block, and the \<^verbatim>\<open>catch\<close> only logs and
  rethrows: when \<^verbatim>\<open>link.click()\<close> throws, the URL has been created, the wrapped
  \<^verbatim>\<open>'Failed to download file'\<close> error is raised, and no revocation is ever scheduled.
  When nothing throws the revocation is scheduled 100 milliseconds ahead.
\<close>

theorem downloadFile_click_throws:
  "downloadFile (Blob 3) ''a.pdf'' (Some (AtClick, JsError ''Error'' ''click failed'')) =
     ([CreateObjectURL (Blob 3), CreateAnchor ''a.pdf'', AppendChild,
       ConsoleError ''Download error:'' (JsError ''Error'' ''click failed'')],
      Inl (Error ''Failed to download file''))
   \<and> downloadFile (Blob 3) ''a.pdf'' None =
     ([CreateObjectURL (Blob 3), CreateAnchor ''a.pdf'', AppendChild, Click, RemoveChild,
       SetTimeoutRevoke 100],
      Inr ())"
  by (simp add: downloadFile_def str_or_def)

text \<open>The same for any call after \<^verbatim>\<open>createObjectURL\<close> that throws, and the run without a throw.\<close>

lemma downloadFile_leak:
  assumes "k \<noteq> AtCreateObjectURL"
  shows "CreateObjectURL blob \<in> set (fst (downloadFile blob filename (Some (k, err))))
         \<and> (\<forall>d. SetTimeoutRevoke d \<notin> set (fst (downloadFile blob filename (Some (k, err)))))
         \<and> snd (downloadFile blob filename (Some (k, err))) = Inl (Error ''Failed to download file'')"
  using assms by (cases k) (simp_all add: downloadFile_def)

lemma downloadFile_success:
  "downloadFile blob filename None =
     ([CreateObjectURL blob, CreateAnchor (str_or filename ''download''), AppendChild, Click,
       RemoveChild, SetTimeoutRevoke 100], Inr ())"
  by (simp add: downloadFile_def)

section \<open>The processing flag\<close>

text \<open>
  Each handler that gets past its own checks is its second part run from the state with the
  flag up and the error cleared, after the effects of the API call; so it ends with the flag
  down, and what it ends in does not depend on the error it started with.
\<close>

lemma handleFileUpload_flag_span:
  "handleFileUpload_begin (Some f) s = (s\<lparr>isProcessing := True, error := None\<rparr>, Some f)
   \<and> handleFileUpload api (Some f) net s =
       (fst (handleFileUpload_settle (snd (uploadDocument api (Some f) net))
               (s\<lparr>isProcessing := True, error := None\<rparr>)),
        fst (uploadDocument api (Some f) net)
          @ snd (handleFileUpload_settle (snd (uploadDocument api (Some f) net))
                   (s\<lparr>isProcessing := True, error := None\<rparr>)))
   \<and> \<not> isProcessing (fst (handleFileUpload api (Some f) net s))
   \<and> handleFileUpload api (Some f) net (s\<lparr>error := prior\<rparr>) = handleFileUpload api (Some f) net s"
  by (simp add: handleFileUpload_def handleFileUpload_begin_def handleFileUpload_settle_flag
      split_beta)

lemma handleAIEdit_flag_span:
  assumes "js_trim (editInstructions s) \<noteq> []" and "truthy (htmlContent s)"
  shows "handleAIEdit_begin s =
       (s\<lparr>isProcessing := True, error := None\<rparr>,
        Some \<lparr>call_instruction = editInstructions s, call_html = htmlContent s,
              call_language = language s,
              call_documentId = js_opt_get (document s) ''id''\<rparr>)
   \<and> handleAIEdit api now net s =
       (fst (handleAIEdit_settle (editInstructions s) now
               (snd (editDocument api (editInstructions s) (htmlContent s) (language s)
                       (js_opt_get (document s) ''id'') net))
               (s\<lparr>isProcessing := True, error := None\<rparr>)),
        fst (editDocument api (editInstructions s) (htmlContent s) (language s)
               (js_opt_get (document s) ''id'') net)
          @ snd (handleAIEdit_settle (editInstructions s) now
                   (snd (editDocument api (editInstructions s) (htmlContent s) (language s)
                           (js_opt_get (document s) ''id'') net))
                   (s\<lparr>isProcessing := True, error := None\<rparr>)))
   \<and> \<not> isProcessing (fst (handleAIEdit api now net s))
   \<and> handleAIEdit api now net (s\<lparr>error := prior\<rparr>) = handleAIEdit api now net s"
  using assms
  by (simp add: handleAIEdit_def handleAIEdit_begin_def handleAIEdit_settle_flag
      split_beta)

lemma downloadAsFormat_flag_span:
  assumes "truthy (htmlContent s)"
  shows "downloadAsFormat_begin s =
       (s\<lparr>isProcessing := True, error := None\<rparr>,
        Some \<lparr>call_document = document s, call_content = htmlContent s\<rparr>)
   \<and> downloadAsFormat api format net page s =
       (fst (downloadAsFormat_settle format
               (snd (downloadAsFormat_try api
                       \<lparr>call_document = document s, call_content = htmlContent s\<rparr>
                       format net page))
               (s\<lparr>isProcessing := True, error := None\<rparr>)),
        fst (downloadAsFormat_try api
               \<lparr>call_document = document s, call_content = htmlContent s\<rparr> format net page)
          @ snd (downloadAsFormat_settle format
                   (snd (downloadAsFormat_try api
                           \<lparr>call_document = document s, call_content = htmlContent s\<rparr>
                           format net page))
                   (s\<lparr>isProcessing := True, error := None\<rparr>)))
   \<and> \<not> isProcessing (fst (downloadAsFormat api format net page s))
   \<and> downloadAsFormat api format net page (s\<lparr>error := prior\<rparr>) =
       downloadAsFormat api format net page s"
  using assms
  by (simp add: downloadAsFormat_def downloadAsFormat_begin_def downloadAsFormat_settle_flag
      split_beta)

text \<open>A handler calls the API service exactly when its own checks pass.\<close>

lemma begin_calls_iff:
  "(snd (handleFileUpload_begin fl s) \<noteq> None) = (fl \<noteq> None)
   \<and> (snd (handleAIEdit_begin s) \<noteq> None) =
       (js_trim (editInstructions s) \<noteq> [] \<and> truthy (htmlContent s))
   \<and> (snd (downloadAsFormat_begin s) \<noteq> None) = truthy (htmlContent s)"
  by (simp add: handleFileUpload_begin_def handleAIEdit_begin_def downloadAsFormat_begin_def
      split: option.split)

text \<open>
  C7. Take an upload with a file, an edit with an instruction that is not blank and with
  content, and an export with content: the calls that get past the handler's own checks
  and reach the API service, and no others do. For each of the three entry points:

  \<^item> when it reaches the \<^verbatim>\<open>await\<close>, the state is the one it was called in with the
    processing flag up and the error cleared, and nothing else changed;
  \<^item> the entry point as a whole is the effects of the API call followed by its
    \<^verbatim>\<open>try\<close>/\<^verbatim>\<open>catch\<close>/\<^verbatim>\<open>finally\<close> part run from that very state, so the flag is up
    from before the request is sent until the call has settled;
  \<^item> that part leaves the flag down whatever the call has settled to, a thrown error
    included, and whatever the state is by then;
  \<^item> so the entry point ends with the flag down, and its result is the same whatever error
    was showing when it was called: the earlier error is gone.
\<close>

theorem processing_flag:
  "(handleFileUpload_begin (Some f) s = (s\<lparr>isProcessing := True, error := None\<rparr>, Some f)
    \<and> handleFileUpload api (Some f) net s =
        (fst (handleFileUpload_settle (snd (uploadDocument api (Some f) net))
                (s\<lparr>isProcessing := True, error := None\<rparr>)),
         fst (uploadDocument api (Some f) net)
           @ snd (handleFileUpload_settle (snd (uploadDocument api (Some f) net))
                    (s\<lparr>isProcessing := True, error := None\<rparr>)))
    \<and> \<not> isProcessing (fst (handleFileUpload api (Some f) net s))
    \<and> handleFileUpload api (Some f) net (s\<lparr>error := prior\<rparr>) =
        handleFileUpload api (Some f) net s)
   \<and> \<not> isProcessing (fst (handleFileUpload_settle result_u s'))
   \<and> (js_trim (editInstructions s) \<noteq> [] \<and> truthy (htmlContent s) \<longrightarrow>
        handleAIEdit_begin s =
          (s\<lparr>isProcessing := True, error := None\<rparr>,
           Some \<lparr>call_instruction = editInstructions s, call_html = htmlContent s,
                 call_language = language s,
                 call_documentId = js_opt_get (document s) ''id''\<rparr>)
        \<and> handleAIEdit api now net s =
            (fst (handleAIEdit_settle (editInstructions s) now
                    (snd (editDocument api (editInstructions s) (htmlContent s) (language s)
                            (js_opt_get (document s) ''id'') net))
                    (s\<lparr>isProcessing := True, error := None\<rparr>)),
             fst (editDocument api (editInstructions s) (htmlContent s) (language s)
                    (js_opt_get (document s) ''id'') net)
               @ snd (handleAIEdit_settle (editInstructions s) now
                        (snd (editDocument api (editInstructions s) (htmlContent s)
                                (language s) (js_opt_get (document s) ''id'') net))
                        (s\<lparr>isProcessing := True, error := None\<rparr>)))
        \<and> \<not> isProcessing (fst (handleAIEdit api now net s))
        \<and> handleAIEdit api now net (s\<lparr>error := prior\<rparr>) = handleAIEdit api now net s)
   \<and> \<not> isProcessing (fst (handleAIEdit_settle instr now result_e s'))
   \<and> (truthy (htmlContent s) \<longrightarrow>
        downloadAsFormat_begin s =
          (s\<lparr>isProcessing := True, error := None\<rparr>,
           Some \<lparr>call_document = document s, call_content = htmlContent s\<rparr>)
        \<and> downloadAsFormat api format net page s =
            (fst (downloadAsFormat_settle format
                    (snd (downloadAsFormat_try api
                            \<lparr>call_document = document s, call_content = htmlContent s\<rparr>
                            format net page))
                    (s\<lparr>isProcessing := True, error := None\<rparr>)),
             fst (downloadAsFormat_try api
                    \<lparr>call_document = document s, call_content = htmlContent s\<rparr>
                    format net page)
               @ snd (downloadAsFormat_settle format
                        (snd (downloadAsFormat_try api
                                \<lparr>call_document = document s, call_content = htmlContent s\<rparr>
                                format net page))
                        (s\<lparr>isProcessing := True, error := None\<rparr>)))
        \<and> \<not> isProcessing (fst (downloadAsFormat api format net page s))
        \<and> downloadAsFormat api format net page (s\<lparr>error := prior\<rparr>) =
            downloadAsFormat api format net page s)
   \<and> \<not> isProcessing (fst (downloadAsFormat_settle format result_d s'))
   \<and> ((snd (handleFileUpload_begin fl s) \<noteq> None) = (fl \<noteq> None)
      \<and> (snd (handleAIEdit_begin s) \<noteq> None) =
          (js_trim (editInstructions s) \<noteq> [] \<and> truthy (htmlContent s))
      \<and> (snd (downloadAsFormat_begin s) \<noteq> None) = truthy (htmlContent s))"
  (is "?U \<and> ?SU \<and> ?E \<and> ?SE \<and> ?D \<and> ?SD \<and> ?I")
proof -
  have U: ?U
    by (rule handleFileUpload_flag_span)
  have SU: ?SU
    by (rule handleFileUpload_settle_flag)
  have E: ?E
    by (rule impI, rule handleAIEdit_flag_span) (elim conjE, assumption)+
  have SE: ?SE
    by (rule handleAIEdit_settle_flag)
  have D: ?D
    by (rule impI, rule downloadAsFormat_flag_span)
  have SD: ?SD
    by (rule downloadAsFormat_settle_flag)
  have I: ?I
    by (rule begin_calls_iff)
  show ?thesis
    by (rule conjI [OF U conjI [OF SU conjI [OF E conjI [OF SE conjI [OF D conjI [OF SD I]]]]]])
qed

text \<open>
  An edit, an export and an upload started over an old error while the network is down:
  the edit reaches the \<^verbatim>\<open>await\<close> with the flag up and the error cleared, all three end with
  the flag down, and the edit ends the same whatever the old error was.
\<close>

theorem processing_flag_witness:
  "js_trim (editInstructions (initial_state\<lparr>htmlContent := JStr ''<h1>Hi</h1>'',
       editInstructions := ''make title bold'', error := Some ''old''\<rparr>)) \<noteq> []
   \<and> truthy (htmlContent (initial_state\<lparr>htmlContent := JStr ''<h1>Hi</h1>'',
       editInstructions := ''make title bold'', error := Some ''old''\<rparr>))
   \<and> isProcessing (fst (handleAIEdit_begin (initial_state\<lparr>htmlContent := JStr ''<h1>Hi</h1>'',
       editInstructions := ''make title bold'', error := Some ''old''\<rparr>)))
   \<and> error (fst (handleAIEdit_begin (initial_state\<lparr>htmlContent := JStr ''<h1>Hi</h1>'',
       editInstructions := ''make title bold'', error := Some ''old''\<rparr>))) = None
   \<and> \<not> isProcessing (fst (handleAIEdit (ApiService None) ''1/1/2025, 10:00:00 AM''
          (Rejected (JsError ''TypeError'' ''Failed to fetch''))
          (initial_state\<lparr>htmlContent := JStr ''<h1>Hi</h1>'',
             editInstructions := ''make title bold'', error := Some ''old''\<rparr>)))
   \<and> handleAIEdit (ApiService None) ''1/1/2025, 10:00:00 AM''
          (Rejected (JsError ''TypeError'' ''Failed to fetch''))
          (initial_state\<lparr>htmlContent := JStr ''<h1>Hi</h1>'',
             editInstructions := ''make title bold'', error := Some ''old''\<rparr>
           \<lparr>error := Some ''older''\<rparr>) =
       handleAIEdit (ApiService None) ''1/1/2025, 10:00:00 AM''
          (Rejected (JsError ''TypeError'' ''Failed to fetch''))
          (initial_state\<lparr>htmlContent := JStr ''<h1>Hi</h1>'',
             editInstructions := ''make title bold'', error := Some ''old''\<rparr>)
   \<and> \<not> isProcessing (fst (downloadAsFormat (ApiService None) PDF
          (Rejected (JsError ''TypeError'' ''Failed to fetch'')) None
          (initial_state\<lparr>htmlContent := JStr ''<h1>Hi</h1>'',
             editInstructions := ''make title bold'', error := Some ''old''\<rparr>)))
   \<and> \<not> isProcessing (fst (handleFileUpload (ApiService None) (Some (File ''a.txt'' 2048))
          (Rejected (JsError ''TypeError'' ''Failed to fetch''))
          (initial_state\<lparr>htmlContent := JStr ''<h1>Hi</h1>'',
             editInstructions := ''make title bold'', error := Some ''old''\<rparr>)))"
proof -
  have c1: "js_trim (editInstructions (initial_state\<lparr>htmlContent := JStr ''<h1>Hi</h1>'',
       editInstructions := ''make title bold'', error := Some ''old''\<rparr>)) \<noteq> []"
    by (simp add: js_trim_def is_whitespace_def)
  have c2: "truthy (htmlContent (initial_state\<lparr>htmlContent := JStr ''<h1>Hi</h1>'',
       editInstructions := ''make title bold'', error := Some ''old''\<rparr>))"
    by simp
  note t = processing_flag
      [where s = "initial_state\<lparr>htmlContent := JStr ''<h1>Hi</h1>'',
             editInstructions := ''make title bold'', error := Some ''old''\<rparr>"
         and prior = "Some ''older''"
         and api = "ApiService None" and now = "''1/1/2025, 10:00:00 AM''"
         and net = "Rejected (JsError ''TypeError'' ''Failed to fetch'')"
         and format = PDF and page = None and f = "File ''a.txt'' 2048"]
  note u = t [THEN conjunct1]
  note e = t [THEN conjunct2, THEN conjunct2, THEN conjunct1, THEN mp, OF conjI [OF c1 c2]]
  note d = t [THEN conjunct2, THEN conjunct2, THEN conjunct2, THEN conjunct2, THEN conjunct1,
      THEN mp, OF c2]
  have b1: "isProcessing (fst (handleAIEdit_begin (initial_state\<lparr>htmlContent := JStr ''<h1>Hi</h1>'',
       editInstructions := ''make title bold'', error := Some ''old''\<rparr>)))"
    by (simp add: e [THEN conjunct1])
  have b2: "error (fst (handleAIEdit_begin (initial_state\<lparr>htmlContent := JStr ''<h1>Hi</h1>'',
       editInstructions := ''make title bold'', error := Some ''old''\<rparr>))) = None"
    by (simp add: e [THEN conjunct1])
  note p = e [THEN conjunct2, THEN conjunct2, THEN conjunct1]
  note i = e [THEN conjunct2, THEN conjunct2, THEN conjunct2]
  note dp = d [THEN conjunct2, THEN conjunct2, THEN conjunct1]
  note up = u [THEN conjunct2, THEN conjunct2, THEN conjunct1]
  show ?thesis
    by (rule conjI [OF c1 conjI [OF c2 conjI [OF b1 conjI [OF b2 conjI [OF p conjI [OF i
          conjI [OF dp up]]]]]]])
qed

section \<open>Failures leave the document alone\<close>

text \<open>
  C9. An export, failed or not, changes nothing in the state but the error and the
  processing flag; in particular content and history are what they were. An edit that ends
  with an error set changes nothing but the error and the processing flag either, and every
  edit other than a successful one (instruction not blank, content present, 2xx answer
  whose body parses to a value with truthy \<^verbatim>\<open>success\<close> and \<^verbatim>\<open>modifiedHTML\<close>) does end
  with an error set.
\<close>

theorem failure_keeps_state:
  "fst (downloadAsFormat api format net page s) =
     s\<lparr>error := error (fst (downloadAsFormat api format net page s)),
       isProcessing := isProcessing (fst (downloadAsFormat api format net page s))\<rparr>
   \<and> htmlContent (fst (downloadAsFormat api format net page s)) = htmlContent s
   \<and> editHistory (fst (downloadAsFormat api format net page s)) = editHistory s
   \<and> (error (fst (handleAIEdit api now net s)) \<noteq> None \<longrightarrow>
        fst (handleAIEdit api now net s) =
          s\<lparr>error := error (fst (handleAIEdit api now net s)),
            isProcessing := isProcessing (fst (handleAIEdit api now net s))\<rparr>
        \<and> htmlContent (fst (handleAIEdit api now net s)) = htmlContent s
        \<and> editHistory (fst (handleAIEdit api now net s)) = editHistory s)
   \<and> (\<not> (js_trim (editInstructions s) \<noteq> [] \<and> truthy (htmlContent s)
           \<and> (\<exists>r response. net = Responded r \<and> ok r \<and> json_body r = Inr response
                 \<and> truthy response \<and> truthy (js_get response ''success'')
                 \<and> truthy (js_get response ''modifiedHTML''))) \<longrightarrow>
        error (fst (handleAIEdit api now net s)) \<noteq> None)"
proof -
  have d: "fst (downloadAsFormat api format net page s) =
     s\<lparr>error := error (fst (downloadAsFormat api format net page s)),
       isProcessing := isProcessing (fst (downloadAsFormat api format net page s))\<rparr>"
    by (rule downloadAsFormat_frame)
  have d1: "htmlContent (fst (downloadAsFormat api format net page s)) = htmlContent s"
    by (subst d) simp
  have d2: "editHistory (fst (downloadAsFormat api format net page s)) = editHistory s"
    by (subst d) simp
  have e: "error (fst (handleAIEdit api now net s)) \<noteq> None \<longrightarrow>
        fst (handleAIEdit api now net s) =
          s\<lparr>error := error (fst (handleAIEdit api now net s)),
            isProcessing := isProcessing (fst (handleAIEdit api now net s))\<rparr>
        \<and> htmlContent (fst (handleAIEdit api now net s)) = htmlContent s
        \<and> editHistory (fst (handleAIEdit api now net s)) = editHistory s"
  proof
    assume a: "error (fst (handleAIEdit api now net s)) \<noteq> None"
    have f: "fst (handleAIEdit api now net s) =
          s\<lparr>error := error (fst (handleAIEdit api now net s)),
            isProcessing := isProcessing (fst (handleAIEdit api now net s))\<rparr>"
      by (rule handleAIEdit_frame [OF a])
    have f1: "htmlContent (fst (handleAIEdit api now net s)) = htmlContent s"
      by (subst f) simp
    have f2: "editHistory (fst (handleAIEdit api now net s)) = editHistory s"
      by (subst f) simp
    from f f1 f2 show "fst (handleAIEdit api now net s) =
          s\<lparr>error := error (fst (handleAIEdit api now net s)),
            isProcessing := isProcessing (fst (handleAIEdit api now net s))\<rparr>
        \<and> htmlContent (fst (handleAIEdit api now net s)) = htmlContent s
        \<and> editHistory (fst (handleAIEdit api now net s)) = editHistory s"
      by (intro conjI)
  qed
  have r: "\<not> (js_trim (editInstructions s) \<noteq> [] \<and> truthy (htmlContent s)
           \<and> (\<exists>r response. net = Responded r \<and> ok r \<and> json_body r = Inr response
                 \<and> truthy response \<and> truthy (js_get response ''success'')
                 \<and> truthy (js_get response ''modifiedHTML''))) \<longrightarrow>
        error (fst (handleAIEdit api now net s)) \<noteq> None"
    using handleAIEdit_failure_reported by blast
  from d d1 d2 e r show ?thesis by (intro conjI)
qed

text \<open>
  After one successful edit, a second one is refused by the backend with status 500: the
  first edit's content and record are still there.
\<close>

theorem failure_keeps_state_witness:
  "error (fst (handleAIEdit (ApiService None) ''1/1/2025, 10:05:00 AM''
      (Responded \<lparr>status = 500, statusText = ''Internal Server Error'',
         json_body = Inr (JObj [(''error'', JStr ''model unavailable'')]),
         blob_body = Inr (Blob 0)\<rparr>)
      (initial_state\<lparr>currentStep := Edit, htmlContent := JStr ''<h1><b>Hi</b></h1>'',
         editInstructions := ''make it blue'',
         editHistory := [\<lparr>instruction = ''make title bold'',
           timestamp = ''1/1/2025, 10:00:00 AM'', explanation = JStr ''Bolded title''\<rparr>]\<rparr>)))
     = Some ''model unavailable''
   \<and> fst (handleAIEdit (ApiService None) ''1/1/2025, 10:05:00 AM''
      (Responded \<lparr>status = 500, statusText = ''Internal Server Error'',
         json_body = Inr (JObj [(''error'', JStr ''model unavailable'')]),
         blob_body = Inr (Blob 0)\<rparr>)
      (initial_state\<lparr>currentStep := Edit, htmlContent := JStr ''<h1><b>Hi</b></h1>'',
         editInstructions := ''make it blue'',
         editHistory := [\<lparr>instruction = ''make title bold'',
           timestamp = ''1/1/2025, 10:00:00 AM'', explanation = JStr ''Bolded title''\<rparr>]\<rparr>))
     = initial_state\<lparr>currentStep := Edit, htmlContent := JStr ''<h1><b>Hi</b></h1>'',
         editInstructions := ''make it blue'',
         editHistory := [\<lparr>instruction = ''make title bold'',
           timestamp = ''1/1/2025, 10:00:00 AM'', explanation = JStr ''Bolded title''\<rparr>],
         error := Some ''model unavailable''\<rparr>"
proof -
  have h: "error (fst (handleAIEdit (ApiService None) ''1/1/2025, 10:05:00 AM''
      (Responded \<lparr>status = 500, statusText = ''Internal Server Error'',
         json_body = Inr (JObj [(''error'', JStr ''model unavailable'')]),
         blob_body = Inr (Blob 0)\<rparr>)
      (initial_state\<lparr>currentStep := Edit, htmlContent := JStr ''<h1><b>Hi</b></h1>'',
         editInstructions := ''make it blue'',
         editHistory := [\<lparr>instruction = ''make title bold'',
           timestamp = ''1/1/2025, 10:00:00 AM'', explanation = JStr ''Bolded title''\<rparr>]\<rparr>)))
     = Some ''model unavailable''"
    by (simp add: handleAIEdit_def handleAIEdit_begin_def editDocument_def catch_connect_def
        rethrow_connect_def error_from_response_def new_Error_def Error_def js_or_def
        handleAIEdit_settle_def str_or_def ok_def initial_state_def js_trim_def
        is_whitespace_def)
  have p: "\<not> isProcessing (fst (handleAIEdit (ApiService None) ''1/1/2025, 10:05:00 AM''
      (Responded \<lparr>status = 500, statusText = ''Internal Server Error'',
         json_body = Inr (JObj [(''error'', JStr ''model unavailable'')]),
         blob_body = Inr (Blob 0)\<rparr>)
      (initial_state\<lparr>currentStep := Edit, htmlContent := JStr ''<h1><b>Hi</b></h1>'',
         editInstructions := ''make it blue'',
         editHistory := [\<lparr>instruction = ''make title bold'',
           timestamp = ''1/1/2025, 10:00:00 AM'', explanation = JStr ''Bolded title''\<rparr>]\<rparr>)))"
    by (simp add: handleAIEdit_def handleAIEdit_begin_def editDocument_def catch_connect_def
        rethrow_connect_def error_from_response_def new_Error_def Error_def js_or_def
        handleAIEdit_settle_def str_or_def ok_def initial_state_def js_trim_def
        is_whitespace_def)
  show ?thesis
    using h p failure_keeps_state
      [where api = "ApiService None" and now = "''1/1/2025, 10:05:00 AM''"
         and net = "Responded \<lparr>status = 500, statusText = ''Internal Server Error'',
           json_body = Inr (JObj [(''error'', JStr ''model unavailable'')]),
           blob_body = Inr (Blob 0)\<rparr>"
         and s = "initial_state\<lparr>currentStep := Edit, htmlContent := JStr ''<h1><b>Hi</b></h1>'',
           editInstructions := ''make it blue'',
           editHistory := [\<lparr>instruction = ''make title bold'',
             timestamp = ''1/1/2025, 10:00:00 AM'', explanation = JStr ''Bolded title''\<rparr>]\<rparr>"]
    by (simp add: initial_state_def)
qed

end
